theory Spec2Isabelle
  imports Main
begin

section \<open>Data model\<close>

text \<open>
  The two persisted entities. A row keeps the columns the handlers read and write.
  \<^item> \<open>User\<close>: the model file \<^verbatim>\<open>models/user.js\<close> is not part of the sources; the columns
    are the ones the registration handlers pass to \<^verbatim>\<open>models.User.create\<close>. The password
    is optional because an instance loaded with \<^verbatim>\<open>attributes: { exclude: ['password'] }\<close>
    does not carry it; a stored row always carries one.
  \<^item> \<open>Listing\<close>: \<^verbatim>\<open>foodType\<close>, \<^verbatim>\<open>quantity\<close>, \<^verbatim>\<open>location\<close> and \<^verbatim>\<open>status\<close> are the attributes
    of \<^verbatim>\<open>sequelize.define('Listing', ...)\<close>; \<^verbatim>\<open>userId\<close> and \<^verbatim>\<open>claimedBy\<close> are the foreign
    keys of the \<^verbatim>\<open>donor\<close> and \<^verbatim>\<open>receiver\<close> associations that the handlers include and
    filter on. \<^verbatim>\<open>description\<close> is not an attribute of the model, so \<^verbatim>\<open>create\<close> drops it.
    The listing's \<^verbatim>\<open>location\<close> is the field \<open>l_location\<close> (the name \<open>location\<close> is the
    user's). The status is kept as the string the code compares it with.
  Timestamps maintained by the ORM are not modelled.
\<close>

record user =
  uid :: nat
  name :: string
  email :: string
  password :: "string option"
  userType :: string
  organization :: "string option"
  location :: "string option"
  phone :: "string option"

record listing =
  lid :: nat
  foodType :: string
  quantity :: string
  l_location :: string
  status :: string
  userId :: nat
  claimedBy :: "nat option"

record store =
  users :: "user list"
  listings :: "listing list"

text \<open>
  A response is either a success with a status code and a payload, or a failure with a
  status code and the \<^verbatim>\<open>message\<close> of the JSON body.
\<close>

datatype 'a response = Success nat 'a | Failure nat string

fun status_code :: "'a response \<Rightarrow> nat" where
  "status_code (Success c _) = c"
| "status_code (Failure c _) = c"

text \<open>
  The payload of a token (\<^verbatim>\<open>jwt.sign({ id }, ...)\<close> or
  \<^verbatim>\<open>jwt.sign({ id, userType }, ...)\<close>), and what a gate stores in \<^verbatim>\<open>req.user\<close>:
  the decoded payload (the simple middleware) or a model instance (the middleware
  that looks the user up).
\<close>

record payload =
  pid :: nat
  p_userType :: "string option"

datatype req_user = Decoded payload | Instance user

fun ru_id :: "req_user \<Rightarrow> nat" where
  "ru_id (Decoded d) = pid d"
| "ru_id (Instance u) = uid u"

fun ru_userType :: "req_user \<Rightarrow> string option" where
  "ru_userType (Decoded d) = p_userType d"
| "ru_userType (Instance u) = Some (userType u)"

section \<open>JavaScript helpers\<close>

text \<open>
  A request field is \<open>None\<close> when it is absent (\<^verbatim>\<open>undefined\<close>) and a string otherwise
  (the request schemas declare every field a string, so \<^verbatim>\<open>null\<close> and other values are
  not inputs of the model). A string of a request body is kept as its sequence of
  bytes; the handlers only test such strings for emptiness and equality. \<open>truthy\<close> is
  the JavaScript truth value of a field: the empty string is falsy.
\<close>

fun truthy :: "string option \<Rightarrow> bool" where
  "truthy None = False"
| "truthy (Some s) = (s \<noteq> [])"

text \<open>\<^verbatim>\<open>a || b\<close> where \<open>b\<close> is a string, and where \<open>b\<close> is a nullable string.\<close>

fun js_or :: "string option \<Rightarrow> string \<Rightarrow> string" where
  "js_or None b = b"
| "js_or (Some a) b = (if a \<noteq> [] then a else b)"

fun js_or_opt :: "string option \<Rightarrow> string option \<Rightarrow> string option" where
  "js_or_opt None b = b"
| "js_or_opt (Some a) b = (if a \<noteq> [] then Some a else b)"

text \<open>Auto-increment primary keys: one more than the largest key in the table.\<close>

definition next_id :: "nat list \<Rightarrow> nat" where
  "next_id ks = Suc (fold max ks 0)"

section \<open>Listing store\<close>

datatype orm_error = ValidationError

text \<open>
  \<^verbatim>\<open>models.Listing.create\<close>: \<^verbatim>\<open>foodType\<close>, \<^verbatim>\<open>quantity\<close> and \<^verbatim>\<open>location\<close> are
  \<^verbatim>\<open>allowNull: false\<close>, so an absent value is a validation error and nothing is
  inserted; \<^verbatim>\<open>status\<close> takes its default \<^verbatim>\<open>'available'\<close>.
\<close>

record create_body =
  cb_foodType :: "string option"
  cb_quantity :: "string option"
  cb_description :: "string option"
  cb_location :: "string option"

definition Listing_create ::
  "string option \<Rightarrow> string option \<Rightarrow> string option \<Rightarrow> nat \<Rightarrow> store \<Rightarrow> orm_error + listing \<times> store" where
  "Listing_create ft q loc owner s =
     (case (ft, q, loc) of
        (Some f, Some qu, Some l) \<Rightarrow>
          (let row = \<lparr> lid = next_id (map lid (listings s)), foodType = f, quantity = qu,
                       l_location = l, status = ''available'', userId = owner,
                       claimedBy = None \<rparr>
           in Inr (row, s\<lparr> listings := listings s @ [row] \<rparr>))
      | _ \<Rightarrow> Inl ValidationError)"

definition Listing_findByPk :: "nat \<Rightarrow> store \<Rightarrow> listing option" where
  "Listing_findByPk k s = find (\<lambda>l. lid l = k) (listings s)"

text \<open>\<^verbatim>\<open>listing.save()\<close>: the row with the instance's key takes the instance's values.\<close>

definition Listing_save :: "listing \<Rightarrow> store \<Rightarrow> store" where
  "Listing_save l s = s\<lparr> listings := map (\<lambda>r. if lid r = lid l then l else r) (listings s) \<rparr>"

section \<open>Listing handlers (routes/listings.js)\<close>

text \<open>\<^verbatim>\<open>router.get('/')\<close>: all listings whose status is \<^verbatim>\<open>'available'\<close>.\<close>

definition browse :: "store \<Rightarrow> listing list response" where
  "browse s = Success 200 (filter (\<lambda>l. status l = ''available'') (listings s))"

text \<open>
  \<^verbatim>\<open>router.post('/')\<close>, after the gate has set \<^verbatim>\<open>req.user\<close>. Every exception of the
  body, the validation error of \<^verbatim>\<open>create\<close> included, ends in the \<^verbatim>\<open>catch\<close> block.
\<close>

definition create_listing :: "req_user \<Rightarrow> create_body \<Rightarrow> store \<Rightarrow> listing response \<times> store" where
  "create_listing ru b s =
     (if ru_userType ru \<noteq> Some ''donor''
      then (Failure 403 ''Only donors can create listings'', s)
      else (case Listing_create (cb_foodType b) (cb_quantity b) (cb_location b) (ru_id ru) s of
              Inr (row, s') \<Rightarrow> (Success 201 row, s')
            | Inl _ \<Rightarrow> (Failure 500 ''Error creating listing'', s)))"

text \<open>\<^verbatim>\<open>router.patch('/:id/claim')\<close>, after the gate has set \<^verbatim>\<open>req.user\<close>.\<close>

definition claim_listing :: "req_user \<Rightarrow> nat \<Rightarrow> store \<Rightarrow> listing response \<times> store" where
  "claim_listing ru k s =
     (if ru_userType ru \<noteq> Some ''receiver''
      then (Failure 403 ''Only receivers can claim listings'', s)
      else (case Listing_findByPk k s of
              None \<Rightarrow> (Failure 404 ''Listing not found'', s)
            | Some l \<Rightarrow>
                (let l' = l\<lparr> status := ''claimed'', claimedBy := Some (ru_id ru) \<rparr>
                 in (Success 200 l', Listing_save l' s))))"

section \<open>Strings\<close>

text \<open>
  \<^verbatim>\<open>String.prototype.startsWith\<close>, \<^verbatim>\<open>replace\<close> with a string pattern (the first
  occurrence only) and \<^verbatim>\<open>trim\<close>. These are applied to the value of the
  \<^verbatim>\<open>Authorization\<close> header only, which Node decodes as Latin-1: each character is a
  code unit below 256. Among those, \<^verbatim>\<open>trim\<close> strips the white space and line
  terminator characters U+0009 to U+000D, U+0020 and U+00A0.
\<close>

definition js_startsWith :: "string \<Rightarrow> string \<Rightarrow> bool" where
  "js_startsWith s p = (take (length p) s = p)"

fun js_replace :: "string \<Rightarrow> string \<Rightarrow> string \<Rightarrow> string" where
  "js_replace [] p r = (if p = [] then r else [])"
| "js_replace (c # cs) p r =
     (if js_startsWith (c # cs) p then r @ drop (length p) (c # cs)
      else c # js_replace cs p r)"

definition is_ws :: "char \<Rightarrow> bool" where
  "is_ws c = (of_char c \<in> {9, 10, 11, 12, 13, 32, 160 :: nat})"

definition js_trim :: "string \<Rightarrow> string" where
  "js_trim s = rev (dropWhile is_ws (rev (dropWhile is_ws s)))"

section \<open>User store and user views\<close>

definition User_findOne_email :: "string \<Rightarrow> store \<Rightarrow> user option" where
  "User_findOne_email e s = find (\<lambda>u. email u = e) (users s)"

definition User_findByPk :: "nat \<Rightarrow> store \<Rightarrow> user option" where
  "User_findByPk k s = find (\<lambda>u. uid u = k) (users s)"

text \<open>
  \<^verbatim>\<open>models.User.create\<close>. What the User model does to the password it is given
  before the row is written (a hook or a setter of \<^verbatim>\<open>models/user.js\<close>, which is not
  part of the sources) is the parameter \<open>beforeCreate\<close>; it is the identity when the
  model stores the attribute as given. The other values are stored as given.
\<close>

definition User_create ::
  "(string \<Rightarrow> string) \<Rightarrow> string \<Rightarrow> string \<Rightarrow> string \<Rightarrow> string \<Rightarrow> string option \<Rightarrow> string option
     \<Rightarrow> string option \<Rightarrow> store \<Rightarrow> user \<times> store" where
  "User_create beforeCreate n e p t org loc ph s =
     (let row = \<lparr> uid = next_id (map uid (users s)), name = n, email = e,
                  password = Some (beforeCreate p),
                  userType = t, organization = org, location = loc, phone = ph \<rparr>
      in (row, s\<lparr> users := users s @ [row] \<rparr>))"

text \<open>
  A JSON object is an association list. \<^verbatim>\<open>toJSON\<close> gives the attributes of an
  instance; \<^verbatim>\<open>delete o.password\<close> removes a key; \<^verbatim>\<open>{ ...o, password: undefined }\<close>
  sets it to \<^verbatim>\<open>undefined\<close>; \<^verbatim>\<open>res.json\<close> serialises with \<^verbatim>\<open>JSON.stringify\<close>, which
  leaves out the keys whose value is \<^verbatim>\<open>undefined\<close>.

  An instance loaded from the store (\<open>toJSON\<close>) has \<^verbatim>\<open>null\<close> for an optional column
  without a value. The instance that \<^verbatim>\<open>create\<close> returns (\<open>toJSON_created\<close>) is not
  reloaded: an optional attribute that was not submitted is \<^verbatim>\<open>undefined\<close> on it.
\<close>

datatype jsval = JUndefined | JNull | JNum int | JStr string

type_synonym view = "(string \<times> jsval) list"

fun js_nullable :: "string option \<Rightarrow> jsval" where
  "js_nullable None = JNull"
| "js_nullable (Some x) = JStr x"

fun js_optional :: "string option \<Rightarrow> jsval" where
  "js_optional None = JUndefined"
| "js_optional (Some x) = JStr x"

definition toJSON :: "user \<Rightarrow> view" where
  "toJSON u =
     [(''id'', JNum (int (uid u))), (''name'', JStr (name u)), (''email'', JStr (email u))]
     @ (case password u of None \<Rightarrow> [] | Some p \<Rightarrow> [(''password'', JStr p)])
     @ [(''userType'', JStr (userType u)), (''organization'', js_nullable (organization u)),
        (''location'', js_nullable (location u)), (''phone'', js_nullable (phone u))]"

definition toJSON_created :: "user \<Rightarrow> view" where
  "toJSON_created u =
     [(''id'', JNum (int (uid u))), (''name'', JStr (name u)), (''email'', JStr (email u))]
     @ (case password u of None \<Rightarrow> [] | Some p \<Rightarrow> [(''password'', JStr p)])
     @ [(''userType'', JStr (userType u)), (''organization'', js_optional (organization u)),
        (''location'', js_optional (location u)), (''phone'', js_optional (phone u))]"

definition obj_delete :: "string \<Rightarrow> view \<Rightarrow> view" where
  "obj_delete k obj = filter (\<lambda>kv. fst kv \<noteq> k) obj"

definition obj_put :: "string \<Rightarrow> jsval \<Rightarrow> view \<Rightarrow> view" where
  "obj_put k v obj =
     (if k \<in> set (map fst obj) then map (\<lambda>kv. if fst kv = k then (k, v) else kv) obj
      else obj @ [(k, v)])"

definition res_json :: "view \<Rightarrow> view" where
  "res_json obj = filter (\<lambda>kv. snd kv \<noteq> JUndefined) obj"

definition has_field :: "string \<Rightarrow> view \<Rightarrow> bool" where
  "has_field k obj = (k \<in> set (map fst obj))"

section \<open>Tokens\<close>

text \<open>
  The library \<^verbatim>\<open>jsonwebtoken\<close>. With a key, signing and verifying are parameters of the
  model: \<open>sign key payload expiresIn\<close> is the token, \<open>verify key token\<close> is the decoded
  payload or one of the three exceptions of \<^verbatim>\<open>jwt.verify\<close>. Without a key (the second
  argument is \<^verbatim>\<open>undefined\<close>) \<^verbatim>\<open>jwt.sign\<close> throws an \<^verbatim>\<open>Error\<close> and \<^verbatim>\<open>jwt.verify\<close>
  throws a \<^verbatim>\<open>JsonWebTokenError\<close>, whatever the token.
\<close>

datatype jwt_error = TokenExpiredError | JsonWebTokenError | NotBeforeError

datatype js_exception = TypeError | GenericError

definition jwt_sign ::
  "(string \<Rightarrow> payload \<Rightarrow> string \<Rightarrow> string) \<Rightarrow> string option \<Rightarrow> payload \<Rightarrow> string
     \<Rightarrow> js_exception + string" where
  "jwt_sign sign secretOrPrivateKey p expiresIn =
     (case secretOrPrivateKey of
        None \<Rightarrow> Inl GenericError
      | Some key \<Rightarrow> Inr (sign key p expiresIn))"

definition jwt_verify ::
  "(string \<Rightarrow> string \<Rightarrow> jwt_error + payload) \<Rightarrow> string option \<Rightarrow> string
     \<Rightarrow> jwt_error + payload" where
  "jwt_verify verify secretOrPublicKey token =
     (case secretOrPublicKey of
        None \<Rightarrow> Inl JsonWebTokenError
      | Some key \<Rightarrow> verify key token)"

text \<open>
  The first document of \<^verbatim>\<open>middleware/auth.js\<close> (the routes \<^verbatim>\<open>/register\<close>,
  \<^verbatim>\<open>/login\<close>, \<^verbatim>\<open>/verify\<close>, \<^verbatim>\<open>/me\<close> and \<^verbatim>\<open>function auth\<close>) takes its key from
  \<^verbatim>\<open>const { JWT_SECRET } = require('../middleware/auth')\<close>. The three
  \<^verbatim>\<open>module.exports\<close> of the sources are \<^verbatim>\<open>{ router, auth }\<close>, \<^verbatim>\<open>router\<close> and
  \<^verbatim>\<open>router\<close>; none has a property \<^verbatim>\<open>JWT_SECRET\<close>, so the constant is
  \<^verbatim>\<open>undefined\<close> in that document.
\<close>

datatype export = FunctionValue | StringValue string

definition module_exports :: "(string \<times> export) list" where
  "module_exports = [(''router'', FunctionValue), (''auth'', FunctionValue)]"

definition imported_JWT_SECRET :: "string option" where
  "imported_JWT_SECRET =
     (case map_of module_exports ''JWT_SECRET'' of
        Some (StringValue key) \<Rightarrow> Some key
      | _ \<Rightarrow> None)"

section \<open>Registration, login and token routes, first document\<close>

text \<open>
  \<open>checkPassword\<close> is the instance method of the User model, whose file is not part of
  the sources (as \<open>beforeCreate\<close> above).
\<close>

record reg_body =
  rb_name :: "string option"
  rb_email :: "string option"
  rb_password :: "string option"
  rb_userType :: "string option"
  rb_organization :: "string option"
  rb_location :: "string option"
  rb_phone :: "string option"

record login_body =
  lb_email :: "string option"
  lb_password :: "string option"

text \<open>
  \<^verbatim>\<open>router.post('/register')\<close>, first implementation: the password goes to
  \<^verbatim>\<open>models.User.create\<close> as submitted, a duplicate email is answered with 400.
  The first test is \<^verbatim>\<open>!name || !email || !password || !userType\<close>: a field is
  falsy when it is absent or the empty string. \<^verbatim>\<open>jwt.sign\<close> is called after
  \<^verbatim>\<open>create\<close>; its exception is caught by the handler's \<^verbatim>\<open>catch\<close> block, which
  answers 500, with the user already stored.
\<close>

definition register ::
  "(string \<Rightarrow> payload \<Rightarrow> string \<Rightarrow> string) \<Rightarrow> (string \<Rightarrow> string) \<Rightarrow> reg_body \<Rightarrow> store
     \<Rightarrow> (string \<times> view) response \<times> store" where
  \<open>register sign beforeCreate b s =
     (case (rb_name b, rb_email b, rb_password b, rb_userType b) of
        (Some n, Some e, Some p, Some t) \<Rightarrow>
          if n = [] \<or> e = [] \<or> p = [] \<or> t = []
          then (Failure 400 ''Name, email, password, and userType are required'', s)
          else if t \<notin> set [''donor'', ''receiver'']
          then (Failure 400 ''userType must be either "donor" or "receiver"'', s)
          else (case User_findOne_email e s of
                  Some _ \<Rightarrow> (Failure 400 ''User already exists with this email'', s)
                | None \<Rightarrow>
                    (let (u, s') = User_create beforeCreate n e p t (rb_organization b)
                                     (rb_location b) (rb_phone b) s
                     in case jwt_sign sign imported_JWT_SECRET
                               \<lparr> pid = uid u, p_userType = None \<rparr> ''7d'' of
                          Inl _ \<Rightarrow>
                            (Failure 500 ''Internal server error during registration'', s')
                        | Inr token \<Rightarrow>
                            (Success 201
                               (token, res_json (obj_delete ''password'' (toJSON_created u))),
                             s')))
      | _ \<Rightarrow> (Failure 400 ''Name, email, password, and userType are required'', s))\<close>

text \<open>\<^verbatim>\<open>router.post('/login')\<close>, first implementation (\<^verbatim>\<open>user.checkPassword\<close>).\<close>

definition login ::
  "(string \<Rightarrow> payload \<Rightarrow> string \<Rightarrow> string) \<Rightarrow> (user \<Rightarrow> string \<Rightarrow> bool) \<Rightarrow> login_body
     \<Rightarrow> store \<Rightarrow> (string \<times> view) response" where
  "login sign checkPassword b s =
     (case (lb_email b, lb_password b) of
        (Some e, Some p) \<Rightarrow>
          if e = [] \<or> p = [] then Failure 400 ''Email and password are required''
          else (case User_findOne_email e s of
                  None \<Rightarrow> Failure 400 ''Invalid email or password''
                | Some u \<Rightarrow>
                    if \<not> checkPassword u p then Failure 400 ''Invalid email or password''
                    else (case jwt_sign sign imported_JWT_SECRET
                                 \<lparr> pid = uid u, p_userType = None \<rparr> ''7d'' of
                            Inl _ \<Rightarrow> Failure 500 ''Internal server error during login''
                          | Inr token \<Rightarrow>
                              Success 200
                                (token, res_json (obj_delete ''password'' (toJSON u)))))
      | _ \<Rightarrow> Failure 400 ''Email and password are required'')"

text \<open>
  \<^verbatim>\<open>router.get('/verify')\<close> and \<^verbatim>\<open>router.get('/me')\<close>: the header is the value of
  \<^verbatim>\<open>req.header('Authorization')\<close>, \<open>None\<close> when the request has none. The two
  handlers differ only in the message of their last, generic 500 answer, which an
  exception other than the two named ones reaches.
\<close>

definition verify_route ::
  "(string \<Rightarrow> string \<Rightarrow> jwt_error + payload) \<Rightarrow> string option \<Rightarrow> store \<Rightarrow> view response" where
  "verify_route verify hdr s =
     (case hdr of
        None \<Rightarrow> Failure 401 ''No token provided''
      | Some h \<Rightarrow>
          (let token = js_replace h ''Bearer '' []
           in if token = [] then Failure 401 ''No token provided''
              else (case jwt_verify verify imported_JWT_SECRET token of
                      Inl TokenExpiredError \<Rightarrow> Failure 401 ''Token expired''
                    | Inl JsonWebTokenError \<Rightarrow> Failure 401 ''Invalid token''
                    | Inl NotBeforeError \<Rightarrow>
                        Failure 500 ''Internal server error during token verification''
                    | Inr decoded \<Rightarrow>
                        (case User_findByPk (pid decoded) s of
                           None \<Rightarrow> Failure 401 ''Invalid token''
                         | Some u \<Rightarrow> Success 200 (res_json (obj_delete ''password'' (toJSON u)))))))"

definition me_route ::
  "(string \<Rightarrow> string \<Rightarrow> jwt_error + payload) \<Rightarrow> string option \<Rightarrow> store \<Rightarrow> view response" where
  "me_route verify hdr s =
     (case hdr of
        None \<Rightarrow> Failure 401 ''No token provided''
      | Some h \<Rightarrow>
          (let token = js_replace h ''Bearer '' []
           in if token = [] then Failure 401 ''No token provided''
              else (case jwt_verify verify imported_JWT_SECRET token of
                      Inl TokenExpiredError \<Rightarrow> Failure 401 ''Token expired''
                    | Inl JsonWebTokenError \<Rightarrow> Failure 401 ''Invalid token''
                    | Inl NotBeforeError \<Rightarrow> Failure 500 ''Internal server error''
                    | Inr decoded \<Rightarrow>
                        (case User_findByPk (pid decoded) s of
                           None \<Rightarrow> Failure 401 ''Invalid token''
                         | Some u \<Rightarrow> Success 200 (res_json (obj_delete ''password'' (toJSON u)))))))"


section \<open>Registration, login and gate, second document\<close>

text \<open>
  The second document of \<^verbatim>\<open>middleware/auth.js\<close> defines its key itself
  (\<^verbatim>\<open>process.env.JWT_SECRET || '...'\<close>, a non-empty string). There \<open>sign\<close> is
  \<^verbatim>\<open>jwt.sign\<close> with that key (payload and expiry) and \<open>verify\<close> is \<^verbatim>\<open>jwt.verify\<close>
  with that key; \<open>hash\<close> is \<^verbatim>\<open>bcrypt.hash\<close> (password, cost and the salt it draws) and
  \<open>compare\<close> is \<^verbatim>\<open>bcrypt.compare\<close>.

  \<^verbatim>\<open>router.post('/register')\<close>, second implementation: the password is hashed with
  \<^verbatim>\<open>bcrypt.hash(password, 10)\<close> before \<^verbatim>\<open>create\<close>, a duplicate email is answered
  with 409.
\<close>

definition register_bcrypt ::
  "(payload \<Rightarrow> string \<Rightarrow> string) \<Rightarrow> (string \<Rightarrow> nat \<Rightarrow> string \<Rightarrow> string) \<Rightarrow> (string \<Rightarrow> string)
     \<Rightarrow> string \<Rightarrow> reg_body \<Rightarrow> store \<Rightarrow> (string \<times> view) response \<times> store" where
  "register_bcrypt sign hash beforeCreate salt b s =
     (case (rb_name b, rb_email b, rb_password b, rb_userType b) of
        (Some n, Some e, Some p, Some t) \<Rightarrow>
          if n = [] \<or> e = [] \<or> p = [] \<or> t = []
          then (Failure 400 ''Missing required fields'', s)
          else (case User_findOne_email e s of
                  Some _ \<Rightarrow> (Failure 409 ''User already exists'', s)
                | None \<Rightarrow>
                    (let hashedPassword = hash p 10 salt;
                         (u, s') = User_create beforeCreate n e hashedPassword t
                                     (rb_organization b) (rb_location b) (rb_phone b) s;
                         token = sign \<lparr> pid = uid u, p_userType = Some (userType u) \<rparr> ''1d''
                     in (Success 201
                           (token,
                            res_json (obj_put ''password'' JUndefined (toJSON_created u))),
                         s')))
      | _ \<Rightarrow> (Failure 400 ''Missing required fields'', s))"

text \<open>
  \<^verbatim>\<open>router.post('/login')\<close>, second implementation (\<^verbatim>\<open>bcrypt.compare\<close>, which throws
  when the stored hash is missing).
\<close>

definition login_bcrypt ::
  "(payload \<Rightarrow> string \<Rightarrow> string) \<Rightarrow> (string \<Rightarrow> string \<Rightarrow> bool) \<Rightarrow> login_body \<Rightarrow> store
     \<Rightarrow> (string \<times> view) response" where
  "login_bcrypt sign compare b s =
     (case (lb_email b, lb_password b) of
        (Some e, Some p) \<Rightarrow>
          if e = [] \<or> p = [] then Failure 400 ''Missing email or password''
          else (case User_findOne_email e s of
                  None \<Rightarrow> Failure 401 ''Invalid credentials''
                | Some u \<Rightarrow>
                    (case password u of
                       None \<Rightarrow> Failure 500 ''Internal server error during login''
                     | Some h \<Rightarrow>
                         if \<not> compare p h then Failure 401 ''Invalid credentials''
                         else Success 200
                                (sign \<lparr> pid = uid u, p_userType = Some (userType u) \<rparr> ''1d'',
                                 res_json (obj_put ''password'' JUndefined (toJSON u)))))
      | _ \<Rightarrow> Failure 400 ''Missing email or password'')"

text \<open>
  \<^verbatim>\<open>const auth = async (req, res, next) => ...\<close>: checks the header's format, verifies
  the token, loads the user by \<^verbatim>\<open>decoded.id\<close> without the password and stores the
  instance.
\<close>

definition auth_lookup ::
  "(string \<Rightarrow> jwt_error + payload) \<Rightarrow> string option \<Rightarrow> store \<Rightarrow> 'a response + req_user" where
  "auth_lookup verify hdr s =
     (case hdr of
        None \<Rightarrow> Inl (Failure 401 ''Access denied. No authorization token provided.'')
      | Some authHeader \<Rightarrow>
          if authHeader = []
          then Inl (Failure 401 ''Access denied. No authorization token provided.'')
          else if \<not> js_startsWith authHeader ''Bearer ''
          then Inl (Failure 401 ''Invalid token format. Please use Bearer authentication.'')
          else (let token = js_trim (js_replace authHeader ''Bearer '' '''')
                in if token = [] then Inl (Failure 401 ''Access denied. No token provided.'')
                   else (case verify token of
                           Inl TokenExpiredError \<Rightarrow>
                             Inl (Failure 401 ''Token has expired. Please login again.'')
                         | Inl JsonWebTokenError \<Rightarrow>
                             Inl (Failure 401 ''Invalid token. Please provide a valid token.'')
                         | Inl NotBeforeError \<Rightarrow> Inl (Failure 401 ''Token not active yet.'')
                         | Inr decoded \<Rightarrow>
                             (case User_findByPk (pid decoded) s of
                                None \<Rightarrow> Inl (Failure 401 ''Token is invalid. User not found.'')
                              | Some u \<Rightarrow> Inr (Instance (u\<lparr> password := None \<rparr>))))))"


section \<open>Search (routes/listings.js)\<close>

text \<open>
  \<^verbatim>\<open>const models = { Listing, User }\<close> is all that \<^verbatim>\<open>models/index.js\<close> exports under
  that name. The search handler reads \<^verbatim>\<open>models.Sequelize.Op.iLike\<close> when \<^verbatim>\<open>q\<close> is
  truthy: a property that the object does not have is \<^verbatim>\<open>undefined\<close>, and reading
  \<^verbatim>\<open>Op\<close> from it throws a \<^verbatim>\<open>TypeError\<close>; a model class has no \<^verbatim>\<open>Op\<close> either. The
  exception is caught by the handler's \<^verbatim>\<open>catch\<close> block. Had the read given an
  operator, the handler would filter with it on the pattern \<^verbatim>\<open>`%${q}%`\<close>; the
  operator is a predicate on the column value and the pattern.
\<close>

datatype model_class = ListingModel | UserModel

definition models :: "(string \<times> model_class) list" where
  "models = [(''Listing'', ListingModel), (''User'', UserModel)]"

definition models_Sequelize_Op_iLike :: "js_exception + (string \<Rightarrow> string \<Rightarrow> bool)" where
  "models_Sequelize_Op_iLike =
     (case map_of models ''Sequelize'' of
        None \<Rightarrow> Inl TypeError
      | Some _ \<Rightarrow> Inl TypeError)"

text \<open>The template literal \<^verbatim>\<open>`${q}`\<close>.\<close>

fun js_template :: "string option \<Rightarrow> string" where
  "js_template None = ''undefined''"
| "js_template (Some x) = x"

definition search :: "string option \<Rightarrow> store \<Rightarrow> listing list response" where
  "search q s =
     (if truthy q
      then (case models_Sequelize_Op_iLike of
              Inl _ \<Rightarrow> Failure 500 ''Error searching listings''
            | Inr iLike \<Rightarrow>
                Success 200
                  (filter (\<lambda>l. status l = ''available'' \<and>
                                iLike (foodType l) (''%'' @ js_template q @ ''%''))
                     (listings s)))
      else Success 200 (filter (\<lambda>l. status l = ''available'') (listings s)))"

section \<open>Profile handlers\<close>

record profile_body =
  pb_name :: "string option"
  pb_organization :: "string option"
  pb_location :: "string option"
  pb_phone :: "string option"

text \<open>
  \<^verbatim>\<open>router.get('/')\<close> of the profile router. \<^verbatim>\<open>req.user.toJSON()\<close> exists on a model
  instance only; on a decoded payload the call throws and the \<^verbatim>\<open>catch\<close> block answers
  500 with the exception's message.
\<close>

definition profile_get :: "req_user \<Rightarrow> view response" where
  "profile_get ru =
     (case ru of
        Instance u \<Rightarrow> Success 200 (res_json (obj_delete ''password'' (toJSON u)))
      | Decoded _ \<Rightarrow> Failure 500 ''req.user.toJSON is not a function'')"

text \<open>
  \<^verbatim>\<open>router.put('/')\<close> of the profile router: \<^verbatim>\<open>req.user.update\<close> writes the four
  values to the row of the instance.
\<close>

definition profile_put :: "req_user \<Rightarrow> profile_body \<Rightarrow> store \<Rightarrow> view response \<times> store" where
  "profile_put ru b s =
     (case ru of
        Decoded _ \<Rightarrow> (Failure 500 ''req.user.update is not a function'', s)
      | Instance u \<Rightarrow>
          (let n = js_or (pb_name b) (name u);
               org = js_or_opt (pb_organization b) (organization u);
               loc = js_or_opt (pb_location b) (location u);
               ph = js_or_opt (pb_phone b) (phone u);
               updatedUser = u\<lparr> name := n, organization := org, location := loc, phone := ph \<rparr>;
               s' = s\<lparr> users :=
                      map (\<lambda>r. if uid r = uid u
                                then r\<lparr> name := n, organization := org, location := loc, phone := ph \<rparr>
                                else r) (users s) \<rparr>
           in (Success 200 (res_json (obj_delete ''password'' (toJSON updatedUser))), s')))"

text \<open>
  \<^verbatim>\<open>router.get('/stats')\<close> of the profile router. The two totals are sums of
  JavaScript numbers (doubles), which are kept abstract: \<open>estimate q\<close> is the number
  \<^verbatim>\<open>parseInt(q) || 0\<close>, \<open>add\<close> is the addition of two numbers and \<open>zero0\<close> is
  the number \<^verbatim>\<open>0\<close>. The counts are lengths of arrays.
\<close>

record 'n donor_stats =
  totalListings :: nat
  availableListings :: nat
  claimedListings :: nat
  completedListings :: nat
  totalDonations :: 'n

record 'n receiver_stats =
  totalClaims :: nat
  activeClaims :: nat
  completedClaims :: nat
  totalReceived :: 'n

datatype 'n stats = DonorStats "'n donor_stats" | ReceiverStats "'n receiver_stats"

definition profile_stats ::
  "(string \<Rightarrow> 'n) \<Rightarrow> ('n \<Rightarrow> 'n \<Rightarrow> 'n) \<Rightarrow> 'n \<Rightarrow> req_user \<Rightarrow> store \<Rightarrow> 'n stats response" where
  "profile_stats estimate add zero0 ru s =
     (if ru_userType ru = Some ''donor''
      then (let ls = filter (\<lambda>l. userId l = ru_id ru) (listings s)
            in Success 200 (DonorStats
                 \<lparr> totalListings = length ls,
                   availableListings = length (filter (\<lambda>l. status l = ''available'') ls),
                   claimedListings = length (filter (\<lambda>l. status l = ''claimed'') ls),
                   completedListings = length (filter (\<lambda>l. status l = ''completed'') ls),
                   totalDonations =
                     fold (\<lambda>l total. add total (estimate (quantity l))) ls zero0 \<rparr>))
      else (let ls = filter (\<lambda>l. claimedBy l = Some (ru_id ru)) (listings s)
            in Success 200 (ReceiverStats
                 \<lparr> totalClaims = length ls,
                   activeClaims = length (filter (\<lambda>l. status l = ''claimed'') ls),
                   completedClaims = length (filter (\<lambda>l. status l = ''completed'') ls),
                   totalReceived =
                     fold (\<lambda>l total. add total (estimate (quantity l))) ls zero0 \<rparr>)))"

section \<open>Reachable stores\<close>

text \<open>
  The stores that the exposed operations can produce from the empty database
  (\<^verbatim>\<open>sequelize.sync({ force: true })\<close>). The handlers that write are the two
  registrations, the profile update, the listing creation and the claim; each may run
  with any request context a gate can supply.
\<close>

inductive reachable :: "store \<Rightarrow> bool" where
  r_init: "reachable \<lparr> users = [], listings = [] \<rparr>"
| r_register: "reachable s \<Longrightarrow> reachable (snd (register sign beforeCreate b s))"
| r_register_bcrypt:
    "reachable s \<Longrightarrow> reachable (snd (register_bcrypt sign hash beforeCreate salt b s))"
| r_profile_put: "reachable s \<Longrightarrow> reachable (snd (profile_put ru pb s))"
| r_create: "reachable s \<Longrightarrow> reachable (snd (create_listing ru cb s))"
| r_claim: "reachable s \<Longrightarrow> reachable (snd (claim_listing ru k s))"

section \<open>Example data\<close>

definition donorA :: req_user where
  "donorA = Decoded \<lparr> pid = 1, p_userType = Some ''donor'' \<rparr>"

definition receiverB :: req_user where
  "receiverB = Decoded \<lparr> pid = 2, p_userType = Some ''receiver'' \<rparr>"

definition receiverC :: req_user where
  "receiverC = Decoded \<lparr> pid = 3, p_userType = Some ''receiver'' \<rparr>"

definition bread :: listing where
  "bread = \<lparr> lid = 1, foodType = ''Bread'', quantity = ''5 kg'', l_location = ''Cape Town'',
             status = ''available'', userId = 1, claimedBy = None \<rparr>"

definition bread_body :: create_body where
  "bread_body = \<lparr> cb_foodType = Some ''Bread'', cb_quantity = Some ''5 kg'',
                  cb_description = None, cb_location = Some ''Cape Town'' \<rparr>"

definition empty_store :: store where
  "empty_store = \<lparr> users = [], listings = [] \<rparr>"

definition bread_store :: store where
  "bread_store = \<lparr> users = [], listings = [bread] \<rparr>"

definition claimed_store :: store where
  "claimed_store =
     \<lparr> users = [], listings = [bread\<lparr> status := ''claimed'', claimedBy := Some 2 \<rparr>] \<rparr>"

text \<open>The count of completed listings (or claims) that a stats answer reports.\<close>

fun completed_count :: "'n stats response \<Rightarrow> nat option" where
  "completed_count (Success _ (DonorStats d)) = Some (completedListings d)"
| "completed_count (Success _ (ReceiverStats r)) = Some (completedClaims r)"
| "completed_count (Failure _ _) = None"

text \<open>Stand-ins for the libraries and a user, for the examples.\<close>

definition sign0 :: "payload \<Rightarrow> string \<Rightarrow> string" where
  "sign0 p expiresIn = ''jwt''"

definition verify0 :: "string \<Rightarrow> jwt_error + payload" where
  "verify0 token =
     (if token = ''jwt'' then Inr \<lparr> pid = 1, p_userType = Some ''donor'' \<rparr>
      else Inl JsonWebTokenError)"

definition hash0 :: "string \<Rightarrow> nat \<Rightarrow> string \<Rightarrow> string" where
  "hash0 p cost salt = ''$2a$10$'' @ salt @ rev p"

definition sign1 :: "string \<Rightarrow> payload \<Rightarrow> string \<Rightarrow> string" where
  "sign1 key p expiresIn = ''jwt''"


definition alice_body :: reg_body where
  "alice_body = \<lparr> rb_name = Some ''Alice'', rb_email = Some ''alice@example.com'',
                  rb_password = Some ''secret'', rb_userType = Some ''donor'',
                  rb_organization = None, rb_location = Some ''Cape Town'', rb_phone = None \<rparr>"

definition alice :: user where
  "alice = \<lparr> uid = 1, name = ''Alice'', email = ''alice@example.com'',
             password = Some ''$2a$10$saltterces'', userType = ''donor'',
             organization = None, location = Some ''Cape Town'', phone = None \<rparr>"

definition alice_store :: store where
  "alice_store = \<lparr> users = [alice], listings = [] \<rparr>"

definition alice_view :: view where
  "alice_view = [(''id'', JNum 1), (''name'', JStr ''Alice''),
                 (''email'', JStr ''alice@example.com''), (''userType'', JStr ''donor''),
                 (''organization'', JNull), (''location'', JStr ''Cape Town''),
                 (''phone'', JNull)]"

definition alice_created_view :: view where
  "alice_created_view = [(''id'', JNum 1), (''name'', JStr ''Alice''),
                         (''email'', JStr ''alice@example.com''), (''userType'', JStr ''donor''),
                         (''location'', JStr ''Cape Town'')]"


definition alice_login :: login_body where
  "alice_login = \<lparr> lb_email = Some ''alice@example.com'', lb_password = Some ''secret'' \<rparr>"

definition durban_body :: profile_body where
  "durban_body = \<lparr> pb_name = None, pb_organization = None, pb_location = Some ''Durban'',
                   pb_phone = None \<rparr>"

text \<open>
  A registration request with the four required fields (the test of both
  implementations), and one that also passes the role test of the first.
\<close>

definition has_required_fields :: "reg_body \<Rightarrow> bool" where
  "has_required_fields b =
     (truthy (rb_name b) \<and> truthy (rb_email b) \<and> truthy (rb_password b) \<and>
      truthy (rb_userType b))"

definition valid_registration :: "reg_body \<Rightarrow> bool" where
  "valid_registration b =
     (truthy (rb_name b) \<and> truthy (rb_email b) \<and> truthy (rb_password b) \<and>
      (rb_userType b = Some ''donor'' \<or> rb_userType b = Some ''receiver''))"

text \<open>Every stored listing has one of the two statuses of the model's \<^verbatim>\<open>ENUM\<close>.\<close>

definition status_in_enum :: "store \<Rightarrow> bool" where
  "status_in_enum s = list_all (\<lambda>l. status l = ''available'' \<or> status l = ''claimed'') (listings s)"

text \<open>The store after donor 1 has created the bread listing and receiver 2 has claimed it.\<close>

definition claimed_run :: store where
  "claimed_run = snd (claim_listing receiverB 1 (snd (create_listing donorA bread_body empty_store)))"

section \<open>Properties of the listing store\<close>

lemma find_map_replace:
  "find (\<lambda>r. lid r = lid l') ls = Some l \<Longrightarrow>
   find (\<lambda>r. lid r = lid l') (map (\<lambda>r. if lid r = lid l' then l' else r) ls) = Some l'"
  by (induction ls) (auto split: if_splits)

lemma find_Some_lid: "find (\<lambda>l. lid l = k) ls = Some l \<Longrightarrow> lid l = k"
  by (induction ls) (auto split: if_splits)

lemma findByPk_lid: "Listing_findByPk k s = Some l \<Longrightarrow> lid l = k"
  unfolding Listing_findByPk_def by (rule find_Some_lid)

lemma findByPk_after_save:
  "Listing_findByPk (lid l') s = Some l \<Longrightarrow>
   Listing_findByPk (lid l') (Listing_save l' s) = Some l'"
  unfolding Listing_findByPk_def Listing_save_def by (simp add: find_map_replace)

lemma claim_receiver_found:
  assumes "ru_userType ru = Some ''receiver''" and "Listing_findByPk k s = Some l"
  shows "claim_listing ru k s =
           (Success 200 (l\<lparr> status := ''claimed'', claimedBy := Some (ru_id ru) \<rparr>),
            Listing_save (l\<lparr> status := ''claimed'', claimedBy := Some (ru_id ru) \<rparr>) s)"
  using assms by (simp add: claim_listing_def Let_def)

lemma claim_receiver_stored:
  assumes "ru_userType ru = Some ''receiver''" and "Listing_findByPk k s = Some l"
  shows "\<exists>l'. claim_listing ru k s = (Success 200 l', Listing_save l' s) \<and>
           status l' = ''claimed'' \<and> claimedBy l' = Some (ru_id ru) \<and>
           Listing_findByPk k (Listing_save l' s) = Some l'"
proof -
  let ?l = "l\<lparr> status := ''claimed'', claimedBy := Some (ru_id ru) \<rparr>"
  have k: "lid ?l = k" using findByPk_lid [OF assms(2)] by simp
  have "Listing_findByPk (lid ?l) s = Some l" using assms(2) k by simp
  then have "Listing_findByPk (lid ?l) (Listing_save ?l s) = Some ?l"
    by (rule findByPk_after_save)
  then have f: "Listing_findByPk k (Listing_save ?l s) = Some ?l"
    unfolding k .
  have s: "status ?l = ''claimed''" "claimedBy ?l = Some (ru_id ru)" by simp_all
  show ?thesis
    using claim_receiver_found [OF assms] f s by blast
qed

lemma bread_found: "Listing_findByPk 1 bread_store = Some bread"
  by (simp add: Listing_findByPk_def bread_store_def bread_def)

lemma donorA_role: "ru_userType donorA = Some ''donor''"
  by (simp add: donorA_def)

lemma receiverB_role: "ru_userType receiverB = Some ''receiver''"
  by (simp add: receiverB_def)

lemma receiverC_role: "ru_userType receiverC = Some ''receiver''"
  by (simp add: receiverC_def)

section \<open>Claiming a listing\<close>

text \<open>
  C1, as stated: a claim by a receiver on a listing whose status is already
  \<^verbatim>\<open>'claimed'\<close> fails with Conflict and leaves status and claimant unchanged. The
  handler has no check of the current status: on the listing of \<open>claimed_store\<close>,
  already claimed by user 2, the claim of receiver 3 is answered with 200 and the stored
  claimant becomes 3.
\<close>

theorem claim_conflict_counterexample:
  "map status (listings claimed_store) = [''claimed''] \<and>
   map claimedBy (listings claimed_store) = [Some 2] \<and>
   ru_userType receiverC = Some ''receiver'' \<and>
   status_code (fst (claim_listing receiverC 1 claimed_store)) = 200 \<and>
   map claimedBy (listings (snd (claim_listing receiverC 1 claimed_store))) = [Some 3]"
  by (simp add: claimed_store_def receiverC_def bread_def claim_listing_def
        Listing_findByPk_def Listing_save_def Let_def)

text \<open>
  C1, amended: a claim by a receiver on an existing listing succeeds with 200 whatever
  the listing's current status, and stores status \<^verbatim>\<open>'claimed'\<close> with the caller as
  claimant. Of two claims by receivers \<open>a\<close> and \<open>b\<close> on the same listing, handled
  one after the other, both succeed; after the first the stored claimant is \<open>a\<close>,
  after the second it is \<open>b\<close>.
\<close>

theorem claim_succeeds_whatever_status:
  assumes "ru_userType a = Some ''receiver''" and "ru_userType b = Some ''receiver''"
    and "Listing_findByPk k s = Some l"
  shows "\<exists>la sa lb sb.
           claim_listing a k s = (Success 200 la, sa) \<and>
           status la = ''claimed'' \<and> claimedBy la = Some (ru_id a) \<and>
           Listing_findByPk k sa = Some la \<and>
           claim_listing b k sa = (Success 200 lb, sb) \<and>
           status lb = ''claimed'' \<and> claimedBy lb = Some (ru_id b) \<and>
           Listing_findByPk k sb = Some lb"
proof -
  from claim_receiver_stored [OF assms(1,3)] obtain la where
    a: "claim_listing a k s = (Success 200 la, Listing_save la s)"
       "status la = ''claimed''" "claimedBy la = Some (ru_id a)"
       "Listing_findByPk k (Listing_save la s) = Some la"
    by blast
  from claim_receiver_stored [OF assms(2) a(4)] obtain lb where
    b: "claim_listing b k (Listing_save la s) =
          (Success 200 lb, Listing_save lb (Listing_save la s))"
       "status lb = ''claimed''" "claimedBy lb = Some (ru_id b)"
       "Listing_findByPk k (Listing_save lb (Listing_save la s)) = Some lb"
    by blast
  from a b show ?thesis by blast
qed

theorem claim_succeeds_whatever_status_witness:
  "ru_userType receiverB = Some ''receiver'' \<and> ru_userType receiverC = Some ''receiver'' \<and>
   Listing_findByPk 1 bread_store = Some bread \<and>
   (\<exists>la sa lb sb.
      claim_listing receiverB 1 bread_store = (Success 200 la, sa) \<and>
      status la = ''claimed'' \<and> claimedBy la = Some (ru_id receiverB) \<and>
      Listing_findByPk 1 sa = Some la \<and>
      claim_listing receiverC 1 sa = (Success 200 lb, sb) \<and>
      status lb = ''claimed'' \<and> claimedBy lb = Some (ru_id receiverC) \<and>
      Listing_findByPk 1 sb = Some lb)"
  using claim_succeeds_whatever_status [OF receiverB_role receiverC_role bread_found]
    receiverB_role receiverC_role bread_found
  by blast

section \<open>Role checks\<close>

text \<open>
  C3: a user whose role is \<^verbatim>\<open>'donor'\<close> gets 403 from the claim operation and the store
  is unchanged; a user whose role is \<^verbatim>\<open>'receiver'\<close> gets 403 from the create-listing
  operation and the store is unchanged.
\<close>

theorem role_check_forbidden:
  "(ru_userType ru = Some ''donor'' \<longrightarrow>
      claim_listing ru k s = (Failure 403 ''Only receivers can claim listings'', s)) \<and>
   (ru_userType ru' = Some ''receiver'' \<longrightarrow>
      create_listing ru' b s = (Failure 403 ''Only donors can create listings'', s))"
  by (simp add: claim_listing_def create_listing_def)

theorem role_check_forbidden_witness:
  "ru_userType donorA = Some ''donor'' \<and> ru_userType receiverB = Some ''receiver'' \<and>
   claim_listing donorA 1 bread_store =
     (Failure 403 ''Only receivers can claim listings'', bread_store) \<and>
   create_listing receiverB bread_body bread_store =
     (Failure 403 ''Only donors can create listings'', bread_store)"
  using role_check_forbidden [of donorA 1 bread_store receiverB bread_body]
    donorA_role receiverB_role
  by simp

section \<open>Creating a listing without a required field\<close>

text \<open>
  C9, as stated: when a required field is absent, the validation failure of the store is
  answered with 400. The handler's only \<^verbatim>\<open>catch\<close> block answers 500: a donor's request
  without \<^verbatim>\<open>foodType\<close> on the empty store.
\<close>

theorem create_missing_field_counterexample:
  "ru_userType donorA = Some ''donor'' \<and>
   create_listing donorA (bread_body\<lparr> cb_foodType := None \<rparr>) empty_store =
     (Failure 500 ''Error creating listing'', empty_store)"
  by (simp add: donorA_def bread_body_def create_listing_def Listing_create_def)

text \<open>
  C9, amended: for every create-listing request by a donor in which \<^verbatim>\<open>foodType\<close>,
  \<^verbatim>\<open>quantity\<close> or \<^verbatim>\<open>location\<close> is absent, the validation failure of the store is
  answered with the generic server error (500, \<^verbatim>\<open>'Error creating listing'\<close>) and no
  listing is persisted.
\<close>

theorem create_missing_field_is_500:
  assumes "ru_userType ru = Some ''donor''"
    and "cb_foodType b = None \<or> cb_quantity b = None \<or> cb_location b = None"
  shows "create_listing ru b s = (Failure 500 ''Error creating listing'', s)"
  using assms by (auto simp: create_listing_def Listing_create_def split: option.splits)

theorem create_missing_field_is_500_witness:
  "ru_userType donorA = Some ''donor'' \<and>
   cb_quantity (bread_body\<lparr> cb_quantity := None \<rparr>) = None \<and>
   create_listing donorA (bread_body\<lparr> cb_quantity := None \<rparr>) bread_store =
     (Failure 500 ''Error creating listing'', bread_store)"
proof -
  have q: "cb_quantity (bread_body\<lparr> cb_quantity := None \<rparr>) = None" by simp
  show ?thesis
    using create_missing_field_is_500
            [OF donorA_role, of "bread_body\<lparr> cb_quantity := None \<rparr>" bread_store]
          donorA_role q
    by blast
qed

section \<open>Search\<close>

lemma search_with_query:
  "truthy q \<Longrightarrow> search q s = Failure 500 ''Error searching listings''"
  by (simp add: search_def models_Sequelize_Op_iLike_def models_def)

lemma search_without_query: "\<not> truthy q \<Longrightarrow> search q s = browse s"
  by (simp add: search_def browse_def)

text \<open>
  C7: a search with a non-empty query returns the available listings whose
  \<^verbatim>\<open>foodType\<close> contains the query. On the store whose one listing is available and has
  \<^verbatim>\<open>foodType\<close> \<^verbatim>\<open>'Bread'\<close>, browsing returns that listing, and the search for
  \<^verbatim>\<open>'Bread'\<close> is answered with 500: building the filter reads
  \<^verbatim>\<open>models.Sequelize\<close>, which \<^verbatim>\<open>models\<close> does not have.
\<close>

theorem search_bread_fails:
  "browse bread_store = Success 200 [bread] \<and>
   search (Some ''Bread'') bread_store = Failure 500 ''Error searching listings''"
  by (simp add: browse_def search_def models_Sequelize_Op_iLike_def models_def
        bread_store_def bread_def)

section \<open>User views\<close>

lemma no_field_after_delete: "\<not> has_field k (res_json (obj_delete k obj))"
  by (auto simp: has_field_def res_json_def obj_delete_def)

lemma no_field_after_undefined: "\<not> has_field k (res_json (obj_put k JUndefined obj))"
  by (auto simp: has_field_def res_json_def obj_put_def split: if_splits)

lemma register_view:
  "fst (register sign bc b s) = Success c (tok, v) \<Longrightarrow> \<not> has_field ''password'' v"
  by (auto simp: register_def User_create_def Let_def no_field_after_delete
        split: option.splits if_splits sum.splits)

lemma register_bcrypt_view:
  "fst (register_bcrypt sign hash bc salt b s) = Success c (tok, v) \<Longrightarrow>
   \<not> has_field ''password'' v"
  by (auto simp: register_bcrypt_def User_create_def Let_def no_field_after_undefined
        split: option.splits if_splits)

lemma login_view:
  "login sign cp lb s = Success c (tok, v) \<Longrightarrow> \<not> has_field ''password'' v"
  by (auto simp: login_def no_field_after_delete split: option.splits if_splits sum.splits)

lemma login_bcrypt_view:
  "login_bcrypt sign cmp lb s = Success c (tok, v) \<Longrightarrow> \<not> has_field ''password'' v"
  by (auto simp: login_bcrypt_def no_field_after_undefined split: option.splits if_splits)

lemma verify_view:
  "verify_route verify hdr s = Success c v \<Longrightarrow> \<not> has_field ''password'' v"
  by (auto simp: verify_route_def Let_def no_field_after_delete
        split: option.splits if_splits sum.splits jwt_error.splits)

lemma me_view:
  "me_route verify hdr s = Success c v \<Longrightarrow> \<not> has_field ''password'' v"
  by (auto simp: me_route_def Let_def no_field_after_delete
        split: option.splits if_splits sum.splits jwt_error.splits)

lemma profile_get_view:
  "profile_get ru = Success c v \<Longrightarrow> \<not> has_field ''password'' v"
  by (auto simp: profile_get_def no_field_after_delete split: req_user.splits)

lemma profile_put_view:
  "fst (profile_put ru pb s) = Success c v \<Longrightarrow> \<not> has_field ''password'' v"
  by (auto simp: profile_put_def Let_def no_field_after_delete split: req_user.splits)

text \<open>
  The handlers on the example data. In the first document signing and verifying fail
  for want of a key: its registration and login answer 500, its token routes 401.
\<close>

lemma no_imported_secret: "imported_JWT_SECRET = None"
  by (simp add: imported_JWT_SECRET_def module_exports_def)

lemma ev_register_bcrypt:
  "register_bcrypt sign0 hash0 (\<lambda>x. x) ''salt'' alice_body empty_store =
     (Success 201 (''jwt'', alice_created_view), alice_store)"
  by (simp add: register_bcrypt_def alice_body_def empty_store_def User_findOne_email_def
        User_create_def next_id_def hash0_def sign0_def toJSON_created_def obj_put_def
        res_json_def alice_created_view_def alice_store_def alice_def Let_def)


lemma ev_login:
  "login sign (\<lambda>u p. True) alice_login alice_store =
     Failure 500 ''Internal server error during login''"
  by (simp add: login_def alice_login_def alice_store_def User_findOne_email_def
        jwt_sign_def no_imported_secret alice_def)

lemma ev_login_bcrypt:
  "login_bcrypt sign0 (\<lambda>p h. h = hash0 p 10 ''salt'') alice_login alice_store =
     Success 200 (''jwt'', alice_view)"
  by (simp add: login_bcrypt_def alice_login_def alice_store_def User_findOne_email_def
        sign0_def hash0_def toJSON_def obj_put_def res_json_def alice_view_def alice_def Let_def)

lemma ev_replace: "js_replace ''Bearer jwt'' ''Bearer '' [] = ''jwt''"
  by (simp add: js_startsWith_def)

lemma ev_verify:
  "verify_route verify (Some ''Bearer jwt'') alice_store = Failure 401 ''Invalid token''"
  by (simp add: verify_route_def ev_replace jwt_verify_def no_imported_secret)

lemma ev_me:
  "me_route verify (Some ''Bearer jwt'') alice_store = Failure 401 ''Invalid token''"
  by (simp add: me_route_def ev_replace jwt_verify_def no_imported_secret)

lemma ev_profile_get:
  "profile_get (Instance (alice\<lparr> password := None \<rparr>)) = Success 200 alice_view"
  by (simp add: profile_get_def toJSON_def obj_delete_def res_json_def alice_view_def alice_def)

lemma ev_profile_put:
  "profile_put (Instance (alice\<lparr> password := None \<rparr>)) durban_body alice_store =
     (Success 200 (alice_view[5 := (''location'', JStr ''Durban'')]),
      \<lparr> users = [alice\<lparr> location := Some ''Durban'' \<rparr>], listings = [] \<rparr>)"
  by (simp add: profile_put_def durban_body_def alice_store_def toJSON_def obj_delete_def
        res_json_def alice_view_def alice_def Let_def)

text \<open>
  C5: every successful answer that returns a user view (the two registrations, the two
  logins, token verification, current user, profile read and profile update) returns an
  object without the key \<^verbatim>\<open>password\<close>. The view is the serialised JSON of the answer:
  the first implementation deletes the key, the second sets it to \<^verbatim>\<open>undefined\<close>, which
  \<^verbatim>\<open>JSON.stringify\<close> leaves out.
\<close>

theorem user_views_without_password:
  "(\<forall>sign bc b s c tok v.
      fst (register sign bc b s) = Success c (tok, v) \<longrightarrow> \<not> has_field ''password'' v) \<and>
   (\<forall>sign hash bc salt b s c tok v.
      fst (register_bcrypt sign hash bc salt b s) = Success c (tok, v) \<longrightarrow>
      \<not> has_field ''password'' v) \<and>
   (\<forall>sign checkPassword b s c tok v.
      login sign checkPassword b s = Success c (tok, v) \<longrightarrow> \<not> has_field ''password'' v) \<and>
   (\<forall>sign compare b s c tok v.
      login_bcrypt sign compare b s = Success c (tok, v) \<longrightarrow> \<not> has_field ''password'' v) \<and>
   (\<forall>verify hdr s c v.
      verify_route verify hdr s = Success c v \<longrightarrow> \<not> has_field ''password'' v) \<and>
   (\<forall>verify hdr s c v.
      me_route verify hdr s = Success c v \<longrightarrow> \<not> has_field ''password'' v) \<and>
   (\<forall>ru c v. profile_get ru = Success c v \<longrightarrow> \<not> has_field ''password'' v) \<and>
   (\<forall>ru b s c v.
      fst (profile_put ru b s) = Success c v \<longrightarrow> \<not> has_field ''password'' v)"
  by (intro conjI allI impI)
     (erule register_view register_bcrypt_view login_view login_bcrypt_view verify_view
        me_view profile_get_view profile_put_view)+

theorem user_views_without_password_witness:
  "fst (register_bcrypt sign0 hash0 (\<lambda>x. x) ''salt'' alice_body empty_store) =
     Success 201 (''jwt'', alice_created_view) \<and>
   login_bcrypt sign0 (\<lambda>p h. h = hash0 p 10 ''salt'') alice_login alice_store =
     Success 200 (''jwt'', alice_view) \<and>
   profile_get (Instance (alice\<lparr> password := None \<rparr>)) = Success 200 alice_view \<and>
   fst (profile_put (Instance (alice\<lparr> password := None \<rparr>)) durban_body alice_store) =
     Success 200 (alice_view[5 := (''location'', JStr ''Durban'')]) \<and>
   \<not> has_field ''password'' alice_created_view \<and>
   \<not> has_field ''password'' alice_view \<and>
   \<not> has_field ''password'' (alice_view[5 := (''location'', JStr ''Durban'')])"
proof -
  have 2: "fst (register_bcrypt sign0 hash0 (\<lambda>x. x) ''salt'' alice_body empty_store) =
             Success 201 (''jwt'', alice_created_view)"
    by (simp add: ev_register_bcrypt)
  have 8: "fst (profile_put (Instance (alice\<lparr> password := None \<rparr>)) durban_body alice_store) =
             Success 200 (alice_view[5 := (''location'', JStr ''Durban'')])"
    by (simp add: ev_profile_put)
  note t = user_views_without_password
  have a: "\<not> has_field ''password'' alice_created_view"
    using t [THEN conjunct2, THEN conjunct1, rule_format, OF 2] .
  have b: "\<not> has_field ''password'' alice_view"
    using t [THEN conjunct2, THEN conjunct2, THEN conjunct2, THEN conjunct1, rule_format,
             OF ev_login_bcrypt] .
  have c: "\<not> has_field ''password'' (alice_view[5 := (''location'', JStr ''Durban'')])"
    using t [THEN conjunct2, THEN conjunct2, THEN conjunct2, THEN conjunct2, THEN conjunct2,
             THEN conjunct2, THEN conjunct2, rule_format, OF 8] .
  show ?thesis
    using 2 8 a b c ev_login_bcrypt ev_profile_get
    by (intro conjI) assumption+
qed

section \<open>Registering an email twice\<close>

lemma find_append_new:
  "find P xs = None \<Longrightarrow> P y \<Longrightarrow> find P (xs @ [y]) = Some y"
  by (induction xs) (auto split: if_splits)

lemma findOne_after_insert:
  "User_findOne_email e s = None \<Longrightarrow> email u = e \<Longrightarrow>
   User_findOne_email e (s\<lparr> users := users s @ [u] \<rparr>) = Some u"
  by (simp add: User_findOne_email_def find_append_new)

lemma register_bcrypt_fresh:
  assumes "rb_name b = Some n" "rb_email b = Some e" "rb_password b = Some p"
    "rb_userType b = Some t" "n \<noteq> []" "e \<noteq> []" "p \<noteq> []" "t \<noteq> []"
    and "User_findOne_email e s = None"
  shows "register_bcrypt sign hash bc salt b s =
           (Success 201
              (sign \<lparr> pid = next_id (map uid (users s)), p_userType = Some t \<rparr> ''1d'',
               res_json (obj_put ''password'' JUndefined
                 (toJSON_created \<lparr> uid = next_id (map uid (users s)), name = n, email = e,
                           password = Some (bc (hash p 10 salt)), userType = t,
                           organization = rb_organization b, location = rb_location b,
                           phone = rb_phone b \<rparr>))),
            s\<lparr> users := users s @
                 [\<lparr> uid = next_id (map uid (users s)), name = n, email = e,
                    password = Some (bc (hash p 10 salt)), userType = t,
                    organization = rb_organization b, location = rb_location b,
                    phone = rb_phone b \<rparr>] \<rparr>)"
  using assms by (simp add: register_bcrypt_def User_create_def Let_def)

lemma register_bcrypt_duplicate:
  assumes "rb_name b = Some n" "rb_email b = Some e" "rb_password b = Some p"
    "rb_userType b = Some t" "n \<noteq> []" "e \<noteq> []" "p \<noteq> []" "t \<noteq> []"
    and "User_findOne_email e s = Some u"
  shows "register_bcrypt sign hash bc salt b s = (Failure 409 ''User already exists'', s)"
  using assms by (simp add: register_bcrypt_def)

lemma register_duplicate:
  assumes "rb_name b = Some n" "rb_email b = Some e" "rb_password b = Some p"
    "rb_userType b = Some t" "n \<noteq> []" "e \<noteq> []" "p \<noteq> []"
    "t = ''donor'' \<or> t = ''receiver''"
    and "User_findOne_email e s = Some u"
  shows "register sign bc b s = (Failure 400 ''User already exists with this email'', s)"
  using assms by (auto simp: register_def)

lemma register_bcrypt_missing:
  "\<not> has_required_fields b \<Longrightarrow>
   register_bcrypt sign hash bc salt b s = (Failure 400 ''Missing required fields'', s)"
  by (auto simp: has_required_fields_def register_bcrypt_def split: option.splits)

lemma register_missing:
  "\<not> has_required_fields b \<Longrightarrow>
   register sign bc b s =
     (Failure 400 ''Name, email, password, and userType are required'', s)"
  by (auto simp: has_required_fields_def register_def split: option.splits)

lemma has_required_fieldsD:
  assumes "has_required_fields b"
  obtains n e p t where "rb_name b = Some n" "rb_email b = Some e" "rb_password b = Some p"
    "rb_userType b = Some t" "n \<noteq> []" "e \<noteq> []" "p \<noteq> []" "t \<noteq> []"
proof -
  from assms obtain n where n: "rb_name b = Some n" "n \<noteq> []"
    by (cases "rb_name b") (auto simp: has_required_fields_def)
  from assms obtain e where e: "rb_email b = Some e" "e \<noteq> []"
    by (cases "rb_email b") (auto simp: has_required_fields_def)
  from assms obtain p where p: "rb_password b = Some p" "p \<noteq> []"
    by (cases "rb_password b") (auto simp: has_required_fields_def)
  from assms obtain t where t: "rb_userType b = Some t" "t \<noteq> []"
    by (cases "rb_userType b") (auto simp: has_required_fields_def)
  with n e p that show thesis by blast
qed

lemma valid_registrationD:
  assumes "valid_registration b"
  obtains n e p t where "rb_name b = Some n" "rb_email b = Some e" "rb_password b = Some p"
    "rb_userType b = Some t" "n \<noteq> []" "e \<noteq> []" "p \<noteq> []"
    "t = ''donor'' \<or> t = ''receiver''"
proof -
  from assms obtain n where n: "rb_name b = Some n" "n \<noteq> []"
    by (cases "rb_name b") (auto simp: valid_registration_def)
  from assms obtain e where e: "rb_email b = Some e" "e \<noteq> []"
    by (cases "rb_email b") (auto simp: valid_registration_def)
  from assms obtain p where p: "rb_password b = Some p" "p \<noteq> []"
    by (cases "rb_password b") (auto simp: valid_registration_def)
  from assms obtain t where t: "rb_userType b = Some t" "t = ''donor'' \<or> t = ''receiver''"
    by (auto simp: valid_registration_def)
  with n e p that show thesis by blast
qed

lemma register_bcrypt_pair:
  assumes "has_required_fields b1" and "has_required_fields b2"
    and "rb_email b1 = Some e" and "rb_email b2 = Some e"
    and "User_findOne_email e s = None"
  shows "\<exists>r1 u s1.
           register_bcrypt sign hash bc salt b1 s = (Success 201 r1, s1) \<and>
           users s1 = users s @ [u] \<and> email u = e \<and> listings s1 = listings s \<and>
           register_bcrypt sign hash bc salt' b2 s1 = (Failure 409 ''User already exists'', s1)"
proof -
  from assms(1) obtain n p t where
    b1: "rb_name b1 = Some n" "rb_password b1 = Some p" "rb_userType b1 = Some t"
        "n \<noteq> []" "e \<noteq> []" "p \<noteq> []" "t \<noteq> []"
    using assms(3) by (elim has_required_fieldsD) auto
  from assms(2) obtain n2 p2 t2 where
    b2: "rb_name b2 = Some n2" "rb_password b2 = Some p2" "rb_userType b2 = Some t2"
        "n2 \<noteq> []" "p2 \<noteq> []" "t2 \<noteq> []"
    using assms(4) by (elim has_required_fieldsD) auto
  let ?u = "\<lparr> uid = next_id (map uid (users s)), name = n, email = e,
               password = Some (bc (hash p 10 salt)), userType = t,
               organization = rb_organization b1, location = rb_location b1,
               phone = rb_phone b1 \<rparr>"
  let ?s1 = "s\<lparr> users := users s @ [?u] \<rparr>"
  have f: "User_findOne_email e ?s1 = Some ?u"
    using assms(5) by (rule findOne_after_insert) simp
  have 1: "\<exists>r1. register_bcrypt sign hash bc salt b1 s = (Success 201 r1, ?s1)"
    using register_bcrypt_fresh [OF b1(1) assms(3) b1(2,3,4,5,6,7) assms(5)] by blast
  have 2: "register_bcrypt sign hash bc salt' b2 ?s1 = (Failure 409 ''User already exists'', ?s1)"
    using b2(1) assms(4) b2(2,3,4) b1(5) b2(5,6) f by (rule register_bcrypt_duplicate)
  have 5: "users ?s1 = users s @ [?u]" "email ?u = e" "listings ?s1 = listings s"
    by simp_all
  from 1 2 5 show ?thesis by blast
qed

lemma register_stored_email:
  assumes "valid_registration b" and "rb_email b = Some e" and "User_findOne_email e s = Some u"
  shows "register sign bc b s = (Failure 400 ''User already exists with this email'', s)"
proof -
  from assms(1) obtain n p t where
    b: "rb_name b = Some n" "rb_password b = Some p" "rb_userType b = Some t"
       "n \<noteq> []" "e \<noteq> []" "p \<noteq> []" "t = ''donor'' \<or> t = ''receiver''"
    using assms(2) by (elim valid_registrationD) auto
  show ?thesis
    using b(1) assms(2) b(2,3,4,5,6,7) assms(3) by (rule register_duplicate)
qed

lemma alice_required: "has_required_fields alice_body"
  by (simp add: has_required_fields_def alice_body_def)

lemma alice_valid: "valid_registration alice_body"
  by (simp add: valid_registration_def alice_body_def)

lemma alice_email: "rb_email alice_body = Some ''alice@example.com''"
  by (simp add: alice_body_def)

lemma alice_fresh: "User_findOne_email ''alice@example.com'' empty_store = None"
  by (simp add: User_findOne_email_def empty_store_def)

lemma alice_stored: "User_findOne_email ''alice@example.com'' alice_store = Some alice"
  by (simp add: User_findOne_email_def alice_store_def alice_def)

lemma nameless_not_required: "\<not> has_required_fields (alice_body\<lparr> rb_name := None \<rparr>)"
  by (simp add: has_required_fields_def)

text \<open>
  C6, as stated: of every pair of registration requests with the same email the second
  fails with Conflict. The required fields are tested before the email is looked up:
  after Alice's registration, a second request with her email and no \<^verbatim>\<open>name\<close> is
  answered with 400 \<^verbatim>\<open>'Missing required fields'\<close>, not with the duplicate's 409.
\<close>

theorem duplicate_email_missing_field_counterexample:
  "register_bcrypt sign0 hash0 (\<lambda>x. x) ''salt'' alice_body empty_store =
     (Success 201 (''jwt'', alice_created_view), alice_store) \<and>
   rb_email (alice_body\<lparr> rb_name := None \<rparr>) = rb_email alice_body \<and>
   register_bcrypt sign0 hash0 (\<lambda>x. x) ''pepper'' (alice_body\<lparr> rb_name := None \<rparr>) alice_store =
     (Failure 400 ''Missing required fields'', alice_store)"
  using ev_register_bcrypt
    register_bcrypt_missing [OF nameless_not_required, of sign0 hash0 "\<lambda>x. x" "''pepper''"
      alice_store]
  by simp

text \<open>
  C6, amended: of two registration requests with the same email that both carry the four
  required fields, on a store where the email is not registered, the handler that hashes
  the password answers the first with 201 and appends exactly one user with that email,
  and answers the second with 409 \<^verbatim>\<open>'User already exists'\<close>, leaving the store as the
  first left it. A request without one of the required fields is answered with 400 for
  the missing field, whatever its email. In the first implementation a request that
  passes the field and role tests and whose email is stored is answered with 400
  \<^verbatim>\<open>'User already exists with this email'\<close> and leaves the store unchanged.
\<close>

theorem duplicate_email_conflict:
  "(has_required_fields b1 \<and> has_required_fields b2 \<and> rb_email b1 = Some e \<and>
    rb_email b2 = Some e \<and> User_findOne_email e s = None \<longrightarrow>
      (\<exists>r1 u s1.
         register_bcrypt sign hash bc salt b1 s = (Success 201 r1, s1) \<and>
         users s1 = users s @ [u] \<and> email u = e \<and> listings s1 = listings s \<and>
         register_bcrypt sign hash bc salt' b2 s1 = (Failure 409 ''User already exists'', s1))) \<and>
   (\<not> has_required_fields b \<longrightarrow>
      register_bcrypt sign hash bc salt b s' = (Failure 400 ''Missing required fields'', s') \<and>
      register sign' bc b s' =
        (Failure 400 ''Name, email, password, and userType are required'', s')) \<and>
   (valid_registration b' \<and> rb_email b' = Some e' \<and> User_findOne_email e' s' = Some u' \<longrightarrow>
      register sign' bc b' s' = (Failure 400 ''User already exists with this email'', s'))"
  using register_bcrypt_pair [of b1 b2 e s sign hash bc salt salt']
    register_bcrypt_missing [of b sign hash bc salt s'] register_missing [of b sign' bc s']
    register_stored_email [of b' e' s' u' sign' bc]
  by blast

theorem duplicate_email_conflict_witness:
  "has_required_fields alice_body \<and> rb_email alice_body = Some ''alice@example.com'' \<and>
   User_findOne_email ''alice@example.com'' empty_store = None \<and>
   (\<exists>r1 u s1.
      register_bcrypt sign0 hash0 (\<lambda>x. x) ''salt'' alice_body empty_store = (Success 201 r1, s1) \<and>
      users s1 = users empty_store @ [u] \<and> email u = ''alice@example.com'' \<and>
      listings s1 = listings empty_store \<and>
      register_bcrypt sign0 hash0 (\<lambda>x. x) ''pepper'' alice_body s1 =
        (Failure 409 ''User already exists'', s1)) \<and>
   register_bcrypt sign0 hash0 (\<lambda>x. x) ''salt'' (alice_body\<lparr> rb_name := None \<rparr>) alice_store =
     (Failure 400 ''Missing required fields'', alice_store) \<and>
   valid_registration alice_body \<and>
   User_findOne_email ''alice@example.com'' alice_store = Some alice \<and>
   register sign1 (\<lambda>x. x) alice_body alice_store =
     (Failure 400 ''User already exists with this email'', alice_store)"
  using duplicate_email_conflict
          [of alice_body alice_body "''alice@example.com''" empty_store sign0 hash0 "\<lambda>x. x"
              "''salt''" "''pepper''" "alice_body\<lparr> rb_name := None \<rparr>" alice_store sign1
              alice_body "''alice@example.com''" alice]
        alice_required alice_valid alice_email alice_fresh alice_stored nameless_not_required
  by blast

section \<open>Stored passwords\<close>

lemma users_create_listing: "users (snd (create_listing ru cb s)) = users s"
  by (simp add: create_listing_def Listing_create_def Let_def split: option.splits)

lemma users_claim_listing: "users (snd (claim_listing ru k s)) = users s"
  by (simp add: claim_listing_def Listing_save_def Let_def split: option.splits)

lemma passwords_profile_put:
  "map password (users (snd (profile_put ru pb s))) = map password (users s)"
  by (simp add: profile_put_def Let_def split: req_user.splits)

lemma register_bcrypt_success:
  assumes "fst (register_bcrypt sign hash bc salt b s) = Success c r"
  shows "\<exists>p u. rb_password b = Some p \<and>
           users (snd (register_bcrypt sign hash bc salt b s)) = users s @ [u] \<and>
           password u = Some (bc (hash p 10 salt))"
  using assms
  by (auto simp: register_bcrypt_def User_create_def Let_def split: option.splits if_splits)

lemma register_bcrypt_failure:
  "fst (register_bcrypt sign hash bc salt b s) = Failure c m \<Longrightarrow>
   snd (register_bcrypt sign hash bc salt b s) = s"
  by (auto simp: register_bcrypt_def User_create_def Let_def split: option.splits if_splits)

lemma register_fresh:
  assumes "valid_registration b" and "rb_email b = Some e" and "rb_password b = Some p"
    and "User_findOne_email e s = None"
  shows "fst (register sign bc b s) = Failure 500 ''Internal server error during registration'' \<and>
         (\<exists>u. users (snd (register sign bc b s)) = users s @ [u] \<and> email u = e \<and>
              password u = Some (bc p))"
proof -
  from assms(1) obtain n t where
    b: "rb_name b = Some n" "rb_userType b = Some t" "n \<noteq> []" "e \<noteq> []" "p \<noteq> []"
       "t = ''donor'' \<or> t = ''receiver''"
    using assms(2,3) by (elim valid_registrationD) auto
  from b(6) have t: "t \<noteq> []" by auto
  show ?thesis
    using b t assms(2,3,4)
    by (auto simp: register_def User_create_def Let_def jwt_sign_def no_imported_secret)
qed


section \<open>The auth gates\<close>

lemma find_Some_uid: "find (\<lambda>u. uid u = k) us = Some u \<Longrightarrow> uid u = k \<and> u \<in> set us"
  by (induction us) (auto split: if_splits)

lemma auth_lookup_Inr:
  assumes "auth_lookup verify hdr s = Inr ru"
  shows "\<exists>h d u. hdr = Some h \<and> js_startsWith h ''Bearer '' \<and>
           verify (js_trim (js_replace h ''Bearer '' [])) = Inr d \<and>
           User_findByPk (pid d) s = Some u \<and> ru = Instance (u\<lparr> password := None \<rparr>)"
  using assms
  by (auto simp: auth_lookup_def Let_def
        split: option.splits if_splits sum.splits jwt_error.splits)







lemma ev_auth_lookup:
  "auth_lookup verify0 (Some ''Bearer jwt'') alice_store =
     Inr (Instance (alice\<lparr> password := None \<rparr>))"
  by (simp add: auth_lookup_def js_startsWith_def js_trim_def is_ws_def verify0_def
        User_findByPk_def alice_store_def alice_def Let_def)




lemma ev_find_alice: "User_findByPk 1 alice_store = Some alice"
  by (simp add: User_findByPk_def alice_store_def alice_def)





section \<open>Profile update\<close>

lemma find_map_uid:
  "(\<And>r. uid (f r) = uid r) \<Longrightarrow>
   find (\<lambda>r. uid r = k) (map f us) = map_option f (find (\<lambda>r. uid r = k) us)"
  by (induction us) auto

lemma js_or_falsy: "\<not> truthy a \<Longrightarrow> js_or a x = x"
  by (cases a) auto

lemma js_or_truthy: "truthy a \<Longrightarrow> Some (js_or a x) = a"
  by (cases a) auto

lemma js_or_opt_falsy: "\<not> truthy a \<Longrightarrow> js_or_opt a x = x"
  by (cases a) auto

lemma js_or_opt_truthy: "truthy a \<Longrightarrow> js_or_opt a x = a"
  by (cases a) auto

lemma profile_put_instance:
  "snd (profile_put (Instance (u\<lparr> password := None \<rparr>)) b s) =
     s\<lparr> users := map (\<lambda>r. if uid r = uid u
                            then r\<lparr> name := js_or (pb_name b) (name u),
                                   organization := js_or_opt (pb_organization b) (organization u),
                                   location := js_or_opt (pb_location b) (location u),
                                   phone := js_or_opt (pb_phone b) (phone u) \<rparr>
                            else r) (users s) \<rparr>"
  by (simp add: profile_put_def Let_def)

lemma profile_put_row:
  assumes "User_findByPk k s = Some u"
  shows "User_findByPk k (snd (profile_put (Instance (u\<lparr> password := None \<rparr>)) b s)) =
           Some (u\<lparr> name := js_or (pb_name b) (name u),
                   organization := js_or_opt (pb_organization b) (organization u),
                   location := js_or_opt (pb_location b) (location u),
                   phone := js_or_opt (pb_phone b) (phone u) \<rparr>)"
proof -
  let ?f = "\<lambda>r. if uid r = uid u
                 then r\<lparr> name := js_or (pb_name b) (name u),
                        organization := js_or_opt (pb_organization b) (organization u),
                        location := js_or_opt (pb_location b) (location u),
                        phone := js_or_opt (pb_phone b) (phone u) \<rparr>
                 else r"
  have u: "find (\<lambda>r. uid r = k) (users s) = Some u"
    using assms by (simp add: User_findByPk_def)
  have "find (\<lambda>r. uid r = k) (map ?f (users s)) = map_option ?f (find (\<lambda>r. uid r = k) (users s))"
    by (rule find_map_uid) simp
  then have "find (\<lambda>r. uid r = k) (map ?f (users s)) = Some (?f u)"
    by (simp add: u)
  then show ?thesis
    by (simp add: profile_put_instance User_findByPk_def)
qed

lemma filter_map_others:
  "(\<And>r. uid (g r) = uid r) \<Longrightarrow>
   filter (\<lambda>r. uid r \<noteq> k) (map (\<lambda>r. if uid r = k then g r else r) us) =
   filter (\<lambda>r. uid r \<noteq> k) us"
  by (induction us) auto

lemma profile_put_others:
  "filter (\<lambda>r. uid r \<noteq> ru_id ru) (users (snd (profile_put ru b s))) =
   filter (\<lambda>r. uid r \<noteq> ru_id ru) (users s)"
proof (cases ru)
  case (Decoded d)
  then show ?thesis by (simp add: profile_put_def)
next
  case (Instance u)
  show ?thesis
    unfolding Instance by (simp add: profile_put_def Let_def filter_map_others)
qed

lemma profile_put_keys:
  "map uid (users (snd (profile_put ru b s))) = map uid (users s) \<and>
   map email (users (snd (profile_put ru b s))) = map email (users s) \<and>
   map password (users (snd (profile_put ru b s))) = map password (users s) \<and>
   map userType (users (snd (profile_put ru b s))) = map userType (users s) \<and>
   listings (snd (profile_put ru b s)) = listings s"
  by (cases ru) (simp_all add: profile_put_def Let_def)

lemma profile_update_frame:
  assumes "auth_lookup verify hdr s = (Inr ru :: view response + req_user)"
  shows "\<exists>u u'. User_findByPk (ru_id ru) s = Some u \<and>
           User_findByPk (ru_id ru) (snd (profile_put ru b s)) = Some u' \<and>
           uid u' = uid u \<and> email u' = email u \<and> password u' = password u \<and>
           userType u' = userType u \<and>
           (if truthy (pb_name b) then Some (name u') = pb_name b else name u' = name u) \<and>
           (if truthy (pb_organization b) then organization u' = pb_organization b
            else organization u' = organization u) \<and>
           (if truthy (pb_location b) then location u' = pb_location b
            else location u' = location u) \<and>
           (if truthy (pb_phone b) then phone u' = pb_phone b else phone u' = phone u) \<and>
           filter (\<lambda>r. uid r \<noteq> ru_id ru) (users (snd (profile_put ru b s))) =
             filter (\<lambda>r. uid r \<noteq> ru_id ru) (users s) \<and>
           map uid (users (snd (profile_put ru b s))) = map uid (users s) \<and>
           map email (users (snd (profile_put ru b s))) = map email (users s) \<and>
           map password (users (snd (profile_put ru b s))) = map password (users s) \<and>
           map userType (users (snd (profile_put ru b s))) = map userType (users s) \<and>
           listings (snd (profile_put ru b s)) = listings s"
proof -
  from auth_lookup_Inr [OF assms] obtain h d u where
    "hdr = Some h" and "js_startsWith h ''Bearer ''"
    and "verify (js_trim (js_replace h ''Bearer '' [])) = Inr d"
    and u: "User_findByPk (pid d) s = Some u" and ru: "ru = Instance (u\<lparr> password := None \<rparr>)"
    by auto
  have k: "uid u = pid d"
    using u find_Some_uid [of "pid d" "users s" u] by (simp add: User_findByPk_def)
  have id: "ru_id ru = pid d" by (simp add: ru k)
  let ?u' = "u\<lparr> name := js_or (pb_name b) (name u),
                 organization := js_or_opt (pb_organization b) (organization u),
                 location := js_or_opt (pb_location b) (location u),
                 phone := js_or_opt (pb_phone b) (phone u) \<rparr>"
  have 1: "User_findByPk (ru_id ru) s = Some u" by (simp add: id u)
  have 2: "User_findByPk (ru_id ru) (snd (profile_put ru b s)) = Some ?u'"
    unfolding id unfolding ru using u by (rule profile_put_row)
  have 3: "uid ?u' = uid u" "email ?u' = email u" "password ?u' = password u"
    "userType ?u' = userType u"
    by simp_all
  have 4: "if truthy (pb_name b) then Some (name ?u') = pb_name b else name ?u' = name u"
    by (simp add: js_or_falsy js_or_truthy)
  have 5: "if truthy (pb_organization b) then organization ?u' = pb_organization b
           else organization ?u' = organization u"
    by (simp add: js_or_opt_falsy js_or_opt_truthy)
  have 6: "if truthy (pb_location b) then location ?u' = pb_location b
           else location ?u' = location u"
    by (simp add: js_or_opt_falsy js_or_opt_truthy)
  have 7: "if truthy (pb_phone b) then phone ?u' = pb_phone b else phone ?u' = phone u"
    by (simp add: js_or_opt_falsy js_or_opt_truthy)
  show ?thesis
    using 1 2 3 4 5 6 7 profile_put_others [of ru b s] profile_put_keys [of ru b s]
    by blast
qed

lemma profile_update_durban:
  "auth_lookup verify0 (Some ''Bearer jwt'') alice_store =
     (Inr (Instance (alice\<lparr> password := None \<rparr>)) :: view response + req_user) \<and>
   User_findByPk 1 alice_store = Some alice \<and>
   User_findByPk 1 (snd (profile_put (Instance (alice\<lparr> password := None \<rparr>)) durban_body alice_store)) =
     Some (alice\<lparr> location := Some ''Durban'' \<rparr>)"
proof -
  have g: "auth_lookup verify0 (Some ''Bearer jwt'') alice_store =
             (Inr (Instance (alice\<lparr> password := None \<rparr>)) :: view response + req_user)"
    by (rule ev_auth_lookup)
  have i: "ru_id (Instance (alice\<lparr> password := None \<rparr>)) = 1" by (simp add: alice_def)
  from profile_update_frame [OF g, of durban_body] obtain u u' where
    u: "User_findByPk 1 alice_store = Some u"
    and u': "User_findByPk 1 (snd (profile_put (Instance (alice\<lparr> password := None \<rparr>))
               durban_body alice_store)) = Some u'"
    and same: "uid u' = uid u" "email u' = email u" "password u' = password u"
      "userType u' = userType u"
    and n: "if truthy (pb_name durban_body) then Some (name u') = pb_name durban_body
            else name u' = name u"
    and org: "if truthy (pb_organization durban_body)
              then organization u' = pb_organization durban_body
              else organization u' = organization u"
    and loc: "if truthy (pb_location durban_body) then location u' = pb_location durban_body
              else location u' = location u"
    and ph: "if truthy (pb_phone durban_body) then phone u' = pb_phone durban_body
             else phone u' = phone u"
    unfolding i by blast
  have a: "u = alice" using u ev_find_alice by simp
  have "u' = alice\<lparr> location := Some ''Durban'' \<rparr>"
    using same n org loc ph unfolding a by (simp add: durban_body_def)
  with g ev_find_alice u' show ?thesis by blast
qed




section \<open>Listing status and the completed counts\<close>

lemma listings_register: "listings (snd (register sign bc b s)) = listings s"
  by (simp add: register_def User_create_def Let_def split: option.splits sum.splits)

lemma listings_register_bcrypt: "listings (snd (register_bcrypt sign hash bc salt b s)) = listings s"
  by (simp add: register_bcrypt_def User_create_def Let_def split: option.splits)

lemma listings_profile_put: "listings (snd (profile_put ru pb s)) = listings s"
  by (simp add: profile_put_def Let_def split: req_user.splits)

lemma status_create:
  "status_in_enum s \<Longrightarrow> status_in_enum (snd (create_listing ru cb s))"
  by (auto simp: status_in_enum_def create_listing_def Listing_create_def Let_def
        split: option.splits)

lemma status_claim:
  "status_in_enum s \<Longrightarrow> status_in_enum (snd (claim_listing ru k s))"
  by (auto simp: status_in_enum_def claim_listing_def Listing_save_def Let_def list_all_iff
        split: option.splits)

lemma reachable_status: "reachable s \<Longrightarrow> status_in_enum s"
proof (induction rule: reachable.induct)
  case r_init
  show ?case by (simp add: status_in_enum_def)
next
  case (r_register s sign beforeCreate b)
  then show ?case by (simp add: status_in_enum_def listings_register)
next
  case (r_register_bcrypt s sign hash beforeCreate salt b)
  then show ?case by (simp add: status_in_enum_def listings_register_bcrypt)
next
  case (r_profile_put s ru pb)
  then show ?case by (simp add: status_in_enum_def listings_profile_put)
next
  case (r_create s ru cb)
  from r_create.IH show ?case by (rule status_create)
next
  case (r_claim s ru k)
  from r_claim.IH show ?case by (rule status_claim)
qed

lemma no_completed:
  "status_in_enum s \<Longrightarrow> filter (\<lambda>l. P l \<and> status l = ''completed'') (listings s) = []"
  by (auto simp: status_in_enum_def list_all_iff filter_empty_conv)

lemma claimed_run_reachable: "reachable claimed_run"
  unfolding claimed_run_def empty_store_def by (intro r_claim r_create r_init)

lemma claimed_run_value:
  "claimed_run = \<lparr> users = [], listings = [bread\<lparr> status := ''claimed'', claimedBy := Some 2 \<rparr>] \<rparr>"
  by (simp add: claimed_run_def claim_listing_def create_listing_def Listing_create_def
      Listing_findByPk_def Listing_save_def donorA_def receiverB_def bread_body_def empty_store_def
      bread_def next_id_def Let_def)

text \<open>
  C10: in every store reachable through the exposed operations, each listing's status
  is \<^verbatim>\<open>'available'\<close> or \<^verbatim>\<open>'claimed'\<close> and never \<^verbatim>\<open>'completed'\<close>, and the stats view
  of any user reports 0 completed listings (donor) or 0 completed claims (receiver).
\<close>

theorem status_never_completed:
  assumes "reachable s"
  shows "(\<forall>l \<in> set (listings s). status l = ''available'' \<or> status l = ''claimed'') \<and>
         (\<forall>l \<in> set (listings s). status l \<noteq> ''completed'') \<and>
         completed_count (profile_stats estimate add zero0 ru s) = Some 0"
proof -
  have inv: "status_in_enum s" using assms by (rule reachable_status)
  have 1: "\<forall>l \<in> set (listings s). status l = ''available'' \<or> status l = ''claimed''"
    using inv by (simp add: status_in_enum_def list_all_iff)
  have 2: "\<forall>l \<in> set (listings s). status l \<noteq> ''completed''"
    using 1 by auto
  have 3: "completed_count (profile_stats estimate add zero0 ru s) = Some 0"
    by (simp add: profile_stats_def Let_def no_completed [OF inv])
  show ?thesis using 1 2 3 by blast
qed

theorem status_never_completed_witness:
  "reachable claimed_run \<and> map status (listings claimed_run) = [''claimed''] \<and>
   completed_count (profile_stats (\<lambda>q. 0 :: int) (+) 0 donorA claimed_run) = Some 0 \<and>
   completed_count (profile_stats (\<lambda>q. 0 :: int) (+) 0 receiverB claimed_run) = Some 0"
  using status_never_completed [OF claimed_run_reachable, of "\<lambda>q. 0 :: int" "(+)" 0 donorA]
    status_never_completed [OF claimed_run_reachable, of "\<lambda>q. 0 :: int" "(+)" 0 receiverB]
    claimed_run_reachable
  by (simp add: claimed_run_value)

end
